theory Spec2Isabelle
  imports Main "HOL-Library.AList"
begin

section \<open>Python values, exceptions and the operations the listener uses\<close>

text \<open>
  Events, lookup responses, records and the store are Python objects decoded from JSON.
  A \<open>dict\<close> is an association list: it keeps insertion order, and \<open>map_of\<close> reads a key.
  A float is kept as its literal; the listener never inspects one.
\<close>

datatype json =
    JNull
  | JBool bool
  | JInt int
  | JFloat string
  | JStr string
  | JArr "json list"
  | JObj "(string \<times> json) list"

text \<open>
  The exceptions that can occur. All of them are subclasses of \<open>Exception\<close>;
  \<open>OSError\<close> stands for its subclasses too (\<open>PermissionError\<close>, \<open>URLError\<close>,
  \<open>ConnectionError\<close>), named by the string.
\<close>

datatype exn =
    KeyError string
  | TypeError
  | AttributeError
  | ValueError
  | JSONDecodeError
  | OSError string
  | UnicodeEncodeError
  | SlackApiError string

text \<open>\<open>d[k]\<close> with a string key: only a dict can be subscripted by a string.\<close>

fun py_getitem :: "json \<Rightarrow> string \<Rightarrow> exn + json" where
  "py_getitem (JObj kvs) k =
     (case map_of kvs k of None \<Rightarrow> Inl (KeyError k) | Some v \<Rightarrow> Inr v)"
| "py_getitem _ k = Inl TypeError"

text \<open>\<open>d.get(k, default)\<close>: only a dict has the method.\<close>

fun py_get :: "json \<Rightarrow> string \<Rightarrow> json \<Rightarrow> exn + json" where
  "py_get (JObj kvs) k d = Inr (case map_of kvs k of None \<Rightarrow> d | Some v \<Rightarrow> v)"
| "py_get _ k d = Inl AttributeError"

fun starts_with :: "string \<Rightarrow> string \<Rightarrow> bool" where
  "starts_with s [] = True"
| "starts_with [] (p # ps) = False"
| "starts_with (c # cs) (p # ps) = (c = p \<and> starts_with cs ps)"

fun str_contains :: "string \<Rightarrow> string \<Rightarrow> bool" where
  "str_contains [] p = (p = [])"
| "str_contains (c # cs) p = (starts_with (c # cs) p \<or> str_contains cs p)"

text \<open>\<open>k in x\<close>: key membership for a dict, element membership for a list, substring
  for a string, \<open>TypeError\<close> for a value that is not iterable.\<close>

fun py_in :: "string \<Rightarrow> json \<Rightarrow> exn + bool" where
  "py_in k (JObj kvs) = Inr (map_of kvs k \<noteq> None)"
| "py_in k (JArr xs) = Inr (JStr k \<in> set xs)"
| "py_in k (JStr s) = Inr (str_contains s k)"
| "py_in k _ = Inl TypeError"

text \<open>\<open>x.append(v)\<close>: only a list has the method.\<close>

fun py_append :: "json \<Rightarrow> json \<Rightarrow> exn + json" where
  "py_append (JArr xs) v = Inr (JArr (xs @ [v]))"
| "py_append _ v = Inl AttributeError"

text \<open>Sequencing of a computation that may raise.\<close>

definition and_then :: "exn + 'a \<Rightarrow> ('a \<Rightarrow> exn + 'b) \<Rightarrow> exn + 'b" where
  "and_then r f = (case r of Inl e \<Rightarrow> Inl e | Inr x \<Rightarrow> f x)"

section \<open>The listener, its collaborators and the world it acts on\<close>

record listener =
  bot_token :: string
  app_token :: string
  channel_id :: string
  channel_name :: string

text \<open>
  The collaborators outside the repository are oracles:
  \<open>users_info\<close> is \<open>WebClient.users_info(user=...)\<close>, which returns the response
  data or raises; \<open>local_time\<close> is \<open>datetime.fromtimestamp(float(ts)).strftime(...)\<close>
  of \<open>format_timestamp\<close> (floating point and the local time zone), which returns the
  formatted time or raises; \<open>send_socket_mode_response\<close> is the transport's send,
  which raises or not. The last two describe \<open>json.dump(data, f, indent=2,
  ensure_ascii=False)\<close> on the file opened for writing: \<open>dump_flushes\<close> is the
  number of times the stream's buffer is written out before the end of the dump, each
  time leaving a longer part of the text in the file, and \<open>dump_error\<close> is the exception
  with which the dump stops before the end, if it does, as when a string of the document
  cannot be encoded.
\<close>

record env =
  users_info :: "json \<Rightarrow> exn + json"
  local_time :: "json \<Rightarrow> exn + string"
  send_socket_mode_response :: "string \<Rightarrow> exn option"
  dump_flushes :: "json \<Rightarrow> nat"
  dump_error :: "json \<Rightarrow> exn option"

text \<open>
  The backing file \<open>slack_messages.json\<close>. \<open>Text s\<close> is a file with the content \<open>s\<close>
  that \<open>json.load\<close> rejects (\<open>Text []\<close> is the file of size 0); \<open>Doc j\<close> is a
  non-empty file holding the serialisation of \<open>j\<close>, that is, what a completed
  \<open>json.dump\<close> wrote and what \<open>json.load\<close> returns; \<open>Partial j\<close> is a file holding a
  non-empty proper prefix of the serialisation of the dict \<open>j\<close>, left by a dump that has
  not ended or that stopped with an exception. Such a prefix lacks the closing brace, so
  \<open>json.load\<close> rejects it.
\<close>

datatype content = Text string | Partial json | Doc json

text \<open>
  What the listener does to the outside, in order: the acknowledgment sent, the lines
  printed (named by their fixed text), the lookups made, and every state the backing
  file goes through.
\<close>

datatype effect =
    SendAck string
  | Print string
  | UsersInfo json
  | Disk "content option"

record world =
  disk :: "content option"
  read_only :: bool
  log :: "effect list"

definition emit :: "effect \<Rightarrow> world \<Rightarrow> world" where
  "emit a w = w\<lparr>log := log w @ [a]\<rparr>"

definition print :: "string \<Rightarrow> world \<Rightarrow> world" where
  "print s w = emit (Print s) w"

text \<open>\<open>Path(MESSAGES_FILE).exists()\<close> and \<open>Path(MESSAGES_FILE).stat().st_size > 0\<close>.\<close>

definition path_exists :: "world \<Rightarrow> bool" where
  "path_exists w = (disk w \<noteq> None)"

fun nonempty_file :: "content option \<Rightarrow> bool" where
  "nonempty_file None = False"
| "nonempty_file (Some (Text s)) = (s \<noteq> [])"
| "nonempty_file (Some (Partial j)) = True"
| "nonempty_file (Some (Doc j)) = True"

text \<open>\<open>with open(MESSAGES_FILE, 'r') as f: json.load(f)\<close>.\<close>

fun json_load :: "content option \<Rightarrow> exn + json" where
  "json_load None = Inl (OSError ''FileNotFoundError'')"
| "json_load (Some (Text s)) = Inl JSONDecodeError"
| "json_load (Some (Partial j)) = Inl JSONDecodeError"
| "json_load (Some (Doc j)) = Inr j"

text \<open>A change of the backing file, seen from outside as a new state of the file.\<close>

definition put :: "content \<Rightarrow> world \<Rightarrow> world" where
  "put c w = emit (Disk (Some c)) (w\<lparr>disk := Some c\<rparr>)"

text \<open>
  \<open>open(MESSAGES_FILE, 'w')\<close> raises when the file cannot be written; otherwise it
  creates or truncates the file, which is empty from then on.
\<close>

definition open_w :: "world \<Rightarrow> exn + world" where
  "open_w w =
     (if read_only w then Inl (OSError ''PermissionError'') else Inr (put (Text []) w))"

text \<open>
  \<open>json.dump\<close> writes the document piece by piece through the stream's buffer. Each
  time the buffer is written out, the file holds a longer proper prefix of the text.
  When the dump ends, leaving the \<open>with\<close> block closes the file, which then holds the
  whole document. When the dump stops with an exception, leaving the \<open>with\<close> block
  still closes the file, which keeps the prefix written so far, and the exception goes
  on to the enclosing \<open>try\<close>.
\<close>

fun write_partial :: "nat \<Rightarrow> json \<Rightarrow> world \<Rightarrow> world" where
  "write_partial 0 j w = w"
| "write_partial (Suc n) j w = write_partial n j (put (Partial j) w)"

definition json_dump :: "env \<Rightarrow> json \<Rightarrow> world \<Rightarrow> (exn + unit) \<times> world" where
  "json_dump en j w =
     (let w1 = write_partial (dump_flushes en j) j w in
      case dump_error en j of
        None \<Rightarrow> (Inr (), put (Doc j) w1)
      | Some e \<Rightarrow> (Inl e, put (Partial j) w1))"

definition write_json :: "env \<Rightarrow> json \<Rightarrow> world \<Rightarrow> (exn + unit) \<times> world" where
  "write_json en j w =
     (case open_w w of
        Inl e \<Rightarrow> (Inl e, w)
      | Inr w1 \<Rightarrow> json_dump en j w1)"

text \<open>
  One way for the dump to stop is the encoding. The file is opened with
  \<open>encoding='utf-8'\<close> and the dump is made with \<open>ensure_ascii=False\<close>, so every string
  is written as it is. A Python string may hold a lone surrogate (\<open>json.loads\<close> gives
  one for the escape of U+D83D alone), which the codec refuses with
  \<open>UnicodeEncodeError\<close>.
  Strings here are byte lists in UTF-8; a surrogate is the byte \<open>0xED\<close> followed by a
  byte from \<open>0xA0\<close> on, a pair that the encoding of no other character contains.
\<close>

fun has_surrogate :: "string \<Rightarrow> bool" where
  "has_surrogate (a # b # cs) =
     ((of_char a = (0xED :: nat) \<and> (0xA0 :: nat) \<le> of_char b) \<or> has_surrogate (b # cs))"
| "has_surrogate cs = False"

fun encodable :: "json \<Rightarrow> bool" where
  "encodable (JStr s) = (\<not> has_surrogate s)"
| "encodable (JArr xs) = (\<forall>x \<in> set xs. encodable x)"
| "encodable (JObj kvs) = (\<forall>p \<in> set kvs. \<not> has_surrogate (fst p) \<and> encodable (snd p))"
| "encodable j = True"

definition encoding_error :: "json \<Rightarrow> exn option" where
  "encoding_error j = (if encodable j then None else Some UnicodeEncodeError)"

section \<open>The record store\<close>

definition new_store :: "listener \<Rightarrow> json list \<Rightarrow> json" where
  "new_store l ms =
     JObj [(''channel_name'', JStr (channel_name l)),
           (''channel_id'', JStr (channel_id l)),
           (''messages'', JArr ms)]"

definition initialize_messages_file ::
    "env \<Rightarrow> listener \<Rightarrow> world \<Rightarrow> (exn + unit) \<times> world" where
  "initialize_messages_file en l w =
     (if \<not> path_exists w then
        (case write_json en (new_store l []) w of
           (Inl e, w1) \<Rightarrow> (Inl e, w1)
         | (Inr u, w1) \<Rightarrow> (Inr (), print ''Created new messages file'' w1))
      else (Inr (), w))"

text \<open>\<open>data["messages"].append(message_data)\<close>: the list inside \<open>data\<close> is extended
  in place, so the dict keeps its keys and their order.\<close>

fun set_item :: "json \<Rightarrow> string \<Rightarrow> json \<Rightarrow> json" where
  "set_item (JObj kvs) k v = JObj (AList.update k v kvs)"
| "set_item j k v = j"

definition append_message :: "json \<Rightarrow> json \<Rightarrow> exn + json" where
  "append_message data message_data =
     and_then (py_getitem data ''messages'') (\<lambda>msgs.
     and_then (py_append msgs message_data) (\<lambda>msgs'.
     Inr (set_item data ''messages'' msgs')))"

text \<open>The body of the outer \<open>try\<close> up to the list update: the document to write.\<close>

definition load_and_append :: "listener \<Rightarrow> json \<Rightarrow> world \<Rightarrow> exn + json" where
  "load_and_append l message_data w =
     and_then
       (if path_exists w \<and> nonempty_file (disk w) then json_load (disk w)
        else Inr (new_store l []))
       (\<lambda>data. append_message data message_data)"

text \<open>The handler of the outer \<open>except Exception\<close>, with its own \<open>try\<close>.\<close>

definition save_fallback :: "env \<Rightarrow> listener \<Rightarrow> json \<Rightarrow> world \<Rightarrow> world" where
  "save_fallback en l message_data w =
     (let w1 = print ''Error saving message to JSON'' w in
      case write_json en (new_store l [message_data]) w1 of
        (Inl e, w2) \<Rightarrow> print ''Critical error: Could not save message at all'' w2
      | (Inr u, w2) \<Rightarrow> print ''Created fresh file with message'' w2)"

definition save_message_to_json :: "env \<Rightarrow> listener \<Rightarrow> json \<Rightarrow> world \<Rightarrow> world" where
  "save_message_to_json en l message_data w =
     (case load_and_append l message_data w of
        Inl e \<Rightarrow> save_fallback en l message_data w
      | Inr data \<Rightarrow>
          (case write_json en data w of
             (Inl e, w1) \<Rightarrow> save_fallback en l message_data w1
           | (Inr u, w1) \<Rightarrow> print ''Message saved'' w1))"

section \<open>The profile resolver\<close>

text \<open>
  \<open>response["user"]\<close> on the client's response object is \<open>data.get("user", None)\<close>:
  a missing key gives \<open>None\<close>, not an exception.
\<close>

definition response_getitem :: "json \<Rightarrow> string \<Rightarrow> exn + json" where
  "response_getitem response k = py_get response k JNull"

text \<open>The dict display of \<open>get_user_info\<close>, its values evaluated from left to right.\<close>

definition profile_of :: "json \<Rightarrow> exn + json" where
  "profile_of user =
     and_then (py_getitem user ''id'') (\<lambda>uid.
     and_then (py_getitem user ''name'') (\<lambda>name.
     and_then (py_get user ''real_name'' (JStr [])) (\<lambda>real_name.
     and_then (py_get user ''profile'' (JObj [])) (\<lambda>profile1.
     and_then (py_get profile1 ''display_name'' (JStr [])) (\<lambda>display_name.
     and_then (py_get user ''profile'' (JObj [])) (\<lambda>profile2.
     and_then (py_get profile2 ''email'' (JStr [])) (\<lambda>email.
     Inr (JObj [(''id'', uid), (''name'', name), (''real_name'', real_name),
                (''display_name'', display_name), (''email'', email)]))))))))"

definition unknown_profile :: "json \<Rightarrow> json" where
  "unknown_profile user_id =
     JObj [(''id'', user_id), (''name'', JStr ''Unknown''), (''real_name'', JStr []),
           (''display_name'', JStr []), (''email'', JStr [])]"

text \<open>\<open>except SlackApiError\<close> handles that class only; any other exception leaves
  \<open>get_user_info\<close>.\<close>

definition get_user_info :: "env \<Rightarrow> json \<Rightarrow> world \<Rightarrow> (exn + json) \<times> world" where
  "get_user_info en user_id w =
     (let w1 = emit (UsersInfo user_id) w in
      case and_then (users_info en user_id) (\<lambda>response.
           and_then (response_getitem response ''user'') profile_of) of
        Inl (SlackApiError c) \<Rightarrow> (Inr (unknown_profile user_id), w1)
      | Inl e \<Rightarrow> (Inl e, w1)
      | Inr p \<Rightarrow> (Inr p, w1))"

section \<open>The ingestion pipeline\<close>

definition format_timestamp :: "env \<Rightarrow> json \<Rightarrow> exn + string" where
  "format_timestamp en ts = local_time en ts"

text \<open>The record built by \<open>print_message\<close>; the subscripts \<open>event["ts"]\<close> and
  \<open>event["text"]\<close> have no default.\<close>

definition message_data_of :: "env \<Rightarrow> listener \<Rightarrow> json \<Rightarrow> json \<Rightarrow> exn + json" where
  "message_data_of en l event user_info =
     and_then (py_getitem event ''ts'') (\<lambda>ts.
     and_then (format_timestamp en ts) (\<lambda>formatted_time.
     and_then (py_getitem event ''ts'') (\<lambda>slack_timestamp.
     and_then (py_getitem user_info ''id'') (\<lambda>uid.
     and_then (py_getitem user_info ''name'') (\<lambda>name.
     and_then (py_getitem user_info ''real_name'') (\<lambda>real_name.
     and_then (py_getitem user_info ''display_name'') (\<lambda>display_name.
     and_then (py_getitem user_info ''email'') (\<lambda>email.
     and_then (py_getitem event ''text'') (\<lambda>text.
     and_then (py_get event ''client_msg_id'' (JStr [])) (\<lambda>message_id.
     and_then (py_get event ''thread_ts'' (JStr [])) (\<lambda>thread_ts.
     and_then (py_get event ''parent_user_id'' (JStr [])) (\<lambda>parent_user_id.
     and_then (py_get event ''reactions'' (JArr [])) (\<lambda>reactions.
     and_then (py_get event ''attachments'' (JArr [])) (\<lambda>attachments.
     and_then (py_get event ''files'' (JArr [])) (\<lambda>files.
     Inr (JObj [(''timestamp'', JStr formatted_time),
                (''slack_timestamp'', slack_timestamp),
                (''user'', JObj [(''id'', uid), (''name'', name),
                                 (''real_name'', real_name),
                                 (''display_name'', display_name),
                                 (''email'', email)]),
                (''message'', text),
                (''channel_name'', JStr (channel_name l)),
                (''channel_id'', JStr (channel_id l)),
                (''message_id'', message_id),
                (''thread_ts'', thread_ts),
                (''parent_user_id'', parent_user_id),
                (''reactions'', reactions),
                (''attachments'', attachments),
                (''files'', files)]))))))))))))))))"

definition print_banner :: "world \<Rightarrow> world" where
  "print_banner w =
     foldl (\<lambda>w s. print s w) w
       [''NEW MESSAGE'', ''='', ''time'', ''user'', ''text'', ''channel'', ''='']"

definition print_message :: "env \<Rightarrow> listener \<Rightarrow> json \<Rightarrow> world \<Rightarrow> (exn + unit) \<times> world" where
  "print_message en l event w =
     (case py_getitem event ''user'' of
        Inl e \<Rightarrow> (Inl e, w)
      | Inr user_id \<Rightarrow>
          (case get_user_info en user_id w of
             (Inl e, w1) \<Rightarrow> (Inl e, w1)
           | (Inr user_info, w1) \<Rightarrow>
               (case message_data_of en l event user_info of
                  Inl e \<Rightarrow> (Inl e, w1)
                | Inr message_data \<Rightarrow>
                    (Inr (), save_message_to_json en l message_data (print_banner w1)))))"

text \<open>The condition of \<open>handle_message_events\<close>; \<open>and\<close> evaluates from left to right
  and stops at the first false operand.\<close>

definition event_filter :: "listener \<Rightarrow> json \<Rightarrow> exn + bool" where
  "event_filter l event =
     and_then (py_getitem event ''type'') (\<lambda>t.
       if t \<noteq> JStr ''message'' then Inr False else
     and_then (py_get event ''channel'' JNull) (\<lambda>c.
       if c \<noteq> JStr (channel_id l) then Inr False else
     and_then (py_in ''user'' event) (\<lambda>u.
       if \<not> u then Inr False else
     and_then (py_get event ''subtype'' JNull) (\<lambda>s.
       Inr (s = JNull)))))"

record request =
  envelope_id :: string
  req_type :: string
  payload :: json

definition handle_message_events ::
    "env \<Rightarrow> listener \<Rightarrow> request \<Rightarrow> world \<Rightarrow> (exn + unit) \<times> world" where
  "handle_message_events en l req w =
     (let w1 = emit (SendAck (envelope_id req)) w in
      case send_socket_mode_response en (envelope_id req) of
        Some e \<Rightarrow> (Inl e, w1)
      | None \<Rightarrow>
         (let w2 = print ''Received event type'' w1 in
          if req_type req = ''events_api'' then
            (case py_getitem (payload req) ''event'' of
               Inl e \<Rightarrow> (Inl e, w2)
             | Inr event \<Rightarrow>
                (case and_then (py_get event ''type'' (JStr ''unknown'')) (\<lambda>t.
                           py_get event ''channel'' (JStr ''unknown'')) of
                   Inl e \<Rightarrow> (Inl e, w2)
                 | Inr c \<Rightarrow>
                    (let w3 = print ''Event details'' w2 in
                     case event_filter l event of
                       Inl e \<Rightarrow> (Inl e, w3)
                     | Inr accepted \<Rightarrow>
                         if accepted then
                           print_message en l event
                             (print ''Processing message from user'' w3)
                         else (Inr (), print ''Skipping event'' w3))))
          else if req_type req = ''interactive'' then
            (Inr (), print ''Interactive event received'' w2)
          else (Inr (), print ''Other event type'' w2)))"

section \<open>Notions used to state the properties\<close>

text \<open>
  What the loader of \<open>save_message_to_json\<close> needs of a non-empty file: JSON text
  whose value is a dict with a list under \<open>"messages"\<close>. Anything else makes
  \<open>json.load\<close> or \<open>data["messages"].append\<close> raise.
\<close>

fun parses_as_store :: "content \<Rightarrow> bool" where
  "parses_as_store (Doc (JObj kvs)) =
     (case map_of kvs ''messages'' of Some (JArr ms) \<Rightarrow> True | _ \<Rightarrow> False)"
| "parses_as_store _ = False"

text \<open>The states of the backing file among some effects, and the effects of one call.\<close>

fun disk_states :: "effect list \<Rightarrow> content option list" where
  "disk_states [] = []"
| "disk_states (Disk d # es) = d # disk_states es"
| "disk_states (e # es) = disk_states es"

text \<open>A file that holds a whole document.\<close>

fun complete_file :: "content option \<Rightarrow> bool" where
  "complete_file (Some (Doc j)) = True"
| "complete_file d = False"

definition effects_since :: "world \<Rightarrow> world \<Rightarrow> effect list" where
  "effects_since w w' = drop (length (log w)) (log w')"

text \<open>
  Atomic replacement as the specification words it: during an append, the file is only
  ever seen as it was before or as it is after.
\<close>

definition no_partial_file_observed :: "env \<Rightarrow> listener \<Rightarrow> json \<Rightarrow> world \<Rightarrow> bool" where
  "no_partial_file_observed en l m w =
     list_all (\<lambda>d. d = disk w \<or> d = disk (save_message_to_json en l m w))
       (disk_states (effects_since w (save_message_to_json en l m w)))"

text \<open>A field of an event, when the event is a dict that has it.\<close>

fun field :: "json \<Rightarrow> string \<Rightarrow> json option" where
  "field (JObj kvs) k = map_of kvs k"
| "field j k = None"

text \<open>
  The filter as the specification words it: type exactly \<open>"message"\<close>, channel equal to
  the tracked id, \<open>user\<close> present, \<open>subtype\<close> absent.
\<close>

definition spec_accept :: "listener \<Rightarrow> json \<Rightarrow> bool" where
  "spec_accept l event =
     (field event ''type'' = Some (JStr ''message'')
      \<and> field event ''channel'' = Some (JStr (channel_id l))
      \<and> field event ''user'' \<noteq> None
      \<and> field event ''subtype'' = None)"

text \<open>A field of the \<open>profile\<close> dict of a looked-up user, when there is one.\<close>

definition profile_field :: "(string \<times> json) list \<Rightarrow> string \<Rightarrow> json option" where
  "profile_field user k =
     (case map_of user ''profile'' of Some (JObj p) \<Rightarrow> map_of p k | _ \<Rightarrow> None)"

text \<open>The source timestamps of the records in the backing file, in the file's order.\<close>

definition slack_timestamps :: "content option \<Rightarrow> json list" where
  "slack_timestamps d =
     (case d of
        Some (Doc (JObj kvs)) \<Rightarrow>
          (case map_of kvs ''messages'' of
             Some (JArr ms) \<Rightarrow> map (\<lambda>m. case field m ''slack_timestamp'' of Some t \<Rightarrow> t | None \<Rightarrow> JNull) ms
           | _ \<Rightarrow> [])
      | _ \<Rightarrow> [])"

section \<open>Example values\<close>

definition example_listener :: listener where
  "example_listener =
     \<lparr>bot_token = ''xoxb-1'', app_token = ''xapp-1'', channel_id = ''C1'',
      channel_name = ''general''\<rparr>"

definition empty_world :: world where
  "empty_world = \<lparr>disk = None, read_only = False, log = []\<rparr>"

definition file_world :: "content \<Rightarrow> world" where
  "file_world c = \<lparr>disk = Some c, read_only = False, log = []\<rparr>"

definition empty_store :: "(string \<times> json) list" where
  "empty_store =
     [(''channel_name'', JStr ''general''), (''channel_id'', JStr ''C1''),
      (''messages'', JArr [])]"

definition record_at :: "string \<Rightarrow> json" where
  "record_at ts = JObj [(''slack_timestamp'', JStr ts), (''message'', JStr ''hi'')]"

definition one_record_store :: "(string \<times> json) list" where
  "one_record_store =
     [(''channel_name'', JStr ''general''), (''channel_id'', JStr ''C1''),
      (''messages'', JArr [record_at ''1''])]"

definition example_env :: env where
  "example_env =
     \<lparr>users_info = (\<lambda>u. Inr (JObj [(''ok'', JBool True),
                          (''user'', JObj [(''id'', u), (''name'', JStr ''bob''),
                                           (''real_name'', JStr ''Bob Smith'')])])),
      local_time = (\<lambda>ts. Inr ''2023-11-14 22:13:20''),
      send_socket_mode_response = (\<lambda>i. None),
      dump_flushes = (\<lambda>j. 0),
      dump_error = encoding_error\<rparr>"

text \<open>An environment in which the buffer is written out three times before the end of
  every dump, as for a store of some 25 KiB.\<close>

definition buffered_env :: env where
  "buffered_env = example_env\<lparr>dump_flushes := (\<lambda>j. 3)\<rparr>"

text \<open>The code point U+D83D alone, and a record whose text is that string.\<close>

definition lone_surrogate :: string where
  "lone_surrogate = [CHR 0xED, CHR 0xA0, CHR 0xBD]"

definition surrogate_record :: json where
  "surrogate_record =
     JObj [(''slack_timestamp'', JStr ''2''), (''message'', JStr lone_surrogate)]"

definition offline_env :: env where
  "offline_env = example_env\<lparr>users_info := (\<lambda>u. Inl (OSError ''URLError''))\<rparr>"

definition refusing_env :: env where
  "refusing_env = example_env\<lparr>users_info := (\<lambda>u. Inl (SlackApiError ''user_not_found''))\<rparr>"

definition sparse_env :: env where
  "sparse_env =
     example_env\<lparr>users_info :=
       (\<lambda>u. Inr (JObj [(''ok'', JBool True),
                        (''user'', JObj [(''id'', u), (''name'', JStr ''bob'')])]))\<rparr>"

definition example_event :: "(string \<times> json) list" where
  "example_event =
     [(''type'', JStr ''message''), (''channel'', JStr ''C1''), (''user'', JStr ''U1''),
      (''text'', JStr ''hi''), (''ts'', JStr ''1700000000.000001'')]"

definition null_subtype_event :: "(string \<times> json) list" where
  "null_subtype_event = example_event @ [(''subtype'', JNull)]"

definition no_ts_event :: "(string \<times> json) list" where
  "no_ts_event =
     [(''type'', JStr ''message''), (''channel'', JStr ''C1''), (''user'', JStr ''U1''),
      (''text'', JStr ''hi'')]"

definition events_api :: "json \<Rightarrow> request" where
  "events_api event =
     \<lparr>envelope_id = ''env-1'', req_type = ''events_api'',
      payload = JObj [(''event'', event)]\<rparr>"

definition event_at :: "string \<Rightarrow> request" where
  "event_at ts =
     events_api (JObj [(''type'', JStr ''message''), (''channel'', JStr ''C1''),
                       (''user'', JStr ''U1''), (''text'', JStr ''hi''), (''ts'', JStr ts)])"

section \<open>Basic facts\<close>

lemma emit_simps [simp]:
  "disk (emit a w) = disk w"
  "read_only (emit a w) = read_only w"
  "log (emit a w) = log w @ [a]"
  by (simp_all add: emit_def)

lemma print_simps [simp]:
  "disk (print s w) = disk w"
  "read_only (print s w) = read_only w"
  "log (print s w) = log w @ [Print s]"
  by (simp_all add: print_def)

lemma put_simps [simp]:
  "disk (put c w) = Some c"
  "read_only (put c w) = read_only w"
  "log (put c w) = log w @ [Disk (Some c)]"
  by (simp_all add: put_def)

lemma and_then_simps [simp]:
  "and_then (Inl e) f = Inl e"
  "and_then (Inr x) f = f x"
  by (simp_all add: and_then_def)

lemma and_then_Inr_iff: "and_then r f = Inr y \<longleftrightarrow> (\<exists>x. r = Inr x \<and> f x = Inr y)"
  by (cases r) simp_all

lemma write_partial_simps [simp]:
  "read_only (write_partial n j w) = read_only w"
  "log (write_partial n j w) = log w @ replicate n (Disk (Some (Partial j)))"
  by (induction n arbitrary: w) (simp_all add: replicate_append_same)

text \<open>The three ways a rewrite of the backing file can go.\<close>

lemma write_json_read_only:
  "read_only w \<Longrightarrow> write_json en j w = (Inl (OSError ''PermissionError''), w)"
  by (simp add: write_json_def open_w_def)

lemma write_json_completes:
  assumes "\<not> read_only w" and "dump_error en j = None"
  shows "fst (write_json en j w) = Inr ()"
    and "disk (snd (write_json en j w)) = Some (Doc j)"
    and "read_only (snd (write_json en j w)) = read_only w"
    and "log (snd (write_json en j w)) =
           log w @ Disk (Some (Text [])) # replicate (dump_flushes en j) (Disk (Some (Partial j)))
                 @ [Disk (Some (Doc j))]"
  using assms by (simp_all add: write_json_def open_w_def json_dump_def Let_def)

lemma write_json_stops:
  assumes "\<not> read_only w" and "dump_error en j = Some e"
  shows "fst (write_json en j w) = Inl e"
    and "disk (snd (write_json en j w)) = Some (Partial j)"
    and "read_only (snd (write_json en j w)) = read_only w"
    and "log (snd (write_json en j w)) =
           log w @ Disk (Some (Text [])) # replicate (dump_flushes en j) (Disk (Some (Partial j)))
                 @ [Disk (Some (Partial j))]"
  using assms by (simp_all add: write_json_def open_w_def json_dump_def Let_def)

lemma save_fallback_eq:
  "save_fallback en l m w =
     (let r = write_json en (new_store l [m]) (print ''Error saving message to JSON'' w) in
      print (if isl (fst r) then ''Critical error: Could not save message at all''
             else ''Created fresh file with message'') (snd r))"
  by (simp add: save_fallback_def Let_def split: prod.splits sum.splits)

lemma save_message_eq:
  "save_message_to_json en l m w =
     (case load_and_append l m w of
        Inl e \<Rightarrow> save_fallback en l m w
      | Inr data \<Rightarrow>
          if isl (fst (write_json en data w))
          then save_fallback en l m (snd (write_json en data w))
          else print ''Message saved'' (snd (write_json en data w)))"
  by (simp add: save_message_to_json_def split: prod.splits sum.splits)


lemma disk_states_append [simp]: "disk_states (xs @ ys) = disk_states xs @ disk_states ys"
  by (induction xs rule: disk_states.induct) simp_all

lemma disk_states_replicate [simp]: "disk_states (replicate n (Disk d)) = replicate n d"
  by (induction n) simp_all

section \<open>The record store: recovery, order, initialisation, rewriting\<close>

lemma append_message_fails:
  "\<not> parses_as_store (Doc j) \<Longrightarrow> \<exists>e. append_message j m = Inl e"
  by (cases j) (auto simp: append_message_def split: option.splits json.splits)

lemma load_and_append_fails:
  assumes "disk w = Some c" and "nonempty_file (Some c)" and "\<not> parses_as_store c"
  shows "\<exists>e. load_and_append l m w = Inl e"
proof (cases c)
  case (Text s)
  with assms show ?thesis by (simp add: load_and_append_def path_exists_def)
next
  case (Partial j)
  with assms show ?thesis by (simp add: load_and_append_def path_exists_def)
next
  case (Doc j)
  with assms append_message_fails[of j m] show ?thesis
    by (auto simp add: load_and_append_def path_exists_def)
qed

lemma save_fallback_completes:
  assumes "\<not> read_only w" and "dump_error en (new_store l [m]) = None"
  shows "disk (save_fallback en l m w) = Some (Doc (new_store l [m]))"
    and "read_only (save_fallback en l m w) = read_only w"
    and "log (save_fallback en l m w) =
           log w @ Print ''Error saving message to JSON'' # Disk (Some (Text []))
             # replicate (dump_flushes en (new_store l [m])) (Disk (Some (Partial (new_store l [m]))))
             @ [Disk (Some (Doc (new_store l [m]))), Print ''Created fresh file with message'']"
  using assms
    write_json_completes[of "print ''Error saving message to JSON'' w" en "new_store l [m]"]
  by (simp_all add: save_fallback_eq Let_def)

lemma save_fallback_stops:
  assumes "\<not> read_only w" and "dump_error en (new_store l [m]) = Some e"
  shows "disk (save_fallback en l m w) = Some (Partial (new_store l [m]))"
    and "read_only (save_fallback en l m w) = read_only w"
    and "log (save_fallback en l m w) =
           log w @ Print ''Error saving message to JSON'' # Disk (Some (Text []))
             # replicate (dump_flushes en (new_store l [m])) (Disk (Some (Partial (new_store l [m]))))
             @ [Disk (Some (Partial (new_store l [m]))),
                Print ''Critical error: Could not save message at all'']"
  using assms
    write_json_stops[of "print ''Error saving message to JSON'' w" en "new_store l [m]" e]
  by (simp_all add: save_fallback_eq Let_def)

text \<open>
  C1, as the specification states it, fails: the fresh write can fail too. A record
  whose text holds a lone surrogate cannot be encoded, so the dump of the fresh store
  stops with \<open>UnicodeEncodeError\<close>; the handler's own \<open>except\<close> prints the critical
  error, and the truncated file is left with part of the text, not with the store
  \<open>[M]\<close>.
\<close>

theorem unencodable_record_not_recovered:
  "nonempty_file (disk (file_world (Text ''{not json'')))
   \<and> \<not> parses_as_store (Text ''{not json'')
   \<and> disk (save_message_to_json example_env example_listener surrogate_record
             (file_world (Text ''{not json''))) =
       Some (Partial (JObj [(''channel_name'', JStr ''general''), (''channel_id'', JStr ''C1''),
                            (''messages'', JArr [surrogate_record])]))
   \<and> log (save_message_to_json example_env example_listener surrogate_record
            (file_world (Text ''{not json''))) =
       [Print ''Error saving message to JSON'', Disk (Some (Text [])),
        Disk (Some (Partial (JObj [(''channel_name'', JStr ''general''),
                                   (''channel_id'', JStr ''C1''),
                                   (''messages'', JArr [surrogate_record])]))),
        Print ''Critical error: Could not save message at all'']"
  by code_simp

text \<open>
  C1, amended. For every record M, if the backing file exists, is not empty and does
  not parse as a store (it is not JSON, or its value is not a dict with a list of
  messages), the loader raises and \<open>save_message_to_json\<close> catches the exception (it
  prints the error); when the fresh write then succeeds (the file can be written and the
  dump of the fresh store ends), the file holds a fresh store: the channel name and id
  are the constructor's, the messages are exactly the new record, and the previous
  content is gone. On the way the file is empty and then holds parts of the text.
\<close>

theorem corrupt_file_recovery:
  assumes "disk w = Some c" and "nonempty_file (Some c)" and "\<not> parses_as_store c"
    and "\<not> read_only w"
    and "dump_error en (new_store l [m]) = None"
  shows "disk (save_message_to_json en l m w) =
           Some (Doc (JObj [(''channel_name'', JStr (channel_name l)),
                            (''channel_id'', JStr (channel_id l)),
                            (''messages'', JArr [m])]))
         \<and> log (save_message_to_json en l m w) =
             log w @ Print ''Error saving message to JSON'' # Disk (Some (Text []))
               # replicate (dump_flushes en (new_store l [m]))
                   (Disk (Some (Partial (new_store l [m]))))
               @ [Disk (disk (save_message_to_json en l m w)),
                  Print ''Created fresh file with message'']"
proof -
  from load_and_append_fails[OF assms(1-3)] obtain e
    where "load_and_append l m w = Inl e" by blast
  then have "save_message_to_json en l m w = save_fallback en l m w"
    by (simp add: save_message_to_json_def)
  with save_fallback_completes[OF assms(4,5)] show ?thesis
    by (simp add: new_store_def)
qed

theorem corrupt_file_recovery_witness:
  "disk (file_world (Text ''{not json'')) = Some (Text ''{not json'')
   \<and> nonempty_file (Some (Text ''{not json''))
   \<and> \<not> parses_as_store (Text ''{not json'')
   \<and> \<not> read_only (file_world (Text ''{not json''))
   \<and> dump_error example_env (new_store example_listener [record_at ''1'']) = None
   \<and> disk (save_message_to_json example_env example_listener (record_at ''1'')
             (file_world (Text ''{not json''))) =
       Some (Doc (JObj [(''channel_name'', JStr ''general''), (''channel_id'', JStr ''C1''),
                        (''messages'', JArr [record_at ''1''])]))"
proof -
  have d: "dump_error example_env (new_store example_listener [record_at ''1'']) = None"
    by code_simp
  have "disk (file_world (Text ''{not json'')) = Some (Text ''{not json'')"
    and "nonempty_file (Some (Text ''{not json''))"
    and "\<not> parses_as_store (Text ''{not json'')"
    and "\<not> read_only (file_world (Text ''{not json''))"
    by (simp_all add: file_world_def)
  with d corrupt_file_recovery
          [where w = "file_world (Text ''{not json'')" and c = "Text ''{not json''"
             and l = example_listener and m = "record_at ''1''" and en = example_env]
  show ?thesis by (simp add: example_listener_def)
qed


lemma append_message_store:
  assumes "map_of kvs ''messages'' = Some (JArr ms)"
  shows "append_message (JObj kvs) m =
           Inr (JObj (AList.update ''messages'' (JArr (ms @ [m])) kvs))"
  using assms by (simp add: append_message_def)

lemma save_message_store:
  assumes "disk w = Some (Doc (JObj kvs))" and "map_of kvs ''messages'' = Some (JArr ms)"
    and "\<not> read_only w"
    and "dump_error en (JObj (AList.update ''messages'' (JArr (ms @ [m])) kvs)) = None"
  shows "disk (save_message_to_json en l m w) =
           Some (Doc (JObj (AList.update ''messages'' (JArr (ms @ [m])) kvs)))"
    and "read_only (save_message_to_json en l m w) = read_only w"
    and "log (save_message_to_json en l m w) =
           log w @ Disk (Some (Text []))
             # replicate (dump_flushes en (JObj (AList.update ''messages'' (JArr (ms @ [m])) kvs)))
                 (Disk (Some (Partial (JObj (AList.update ''messages'' (JArr (ms @ [m])) kvs)))))
             @ [Disk (Some (Doc (JObj (AList.update ''messages'' (JArr (ms @ [m])) kvs)))),
                Print ''Message saved'']"
proof -
  let ?data = "JObj (AList.update ''messages'' (JArr (ms @ [m])) kvs)"
  have "load_and_append l m w = Inr ?data"
    using assms(1,2) by (simp add: load_and_append_def path_exists_def append_message_store)
  then have "save_message_to_json en l m w = print ''Message saved'' (snd (write_json en ?data w))"
    using write_json_completes(1)[OF assms(3,4)] by (simp add: save_message_eq)
  then show "disk (save_message_to_json en l m w) = Some (Doc ?data)"
    and "read_only (save_message_to_json en l m w) = read_only w"
    and "log (save_message_to_json en l m w) =
           log w @ Disk (Some (Text []))
             # replicate (dump_flushes en ?data) (Disk (Some (Partial ?data)))
             @ [Disk (Some (Doc ?data)), Print ''Message saved'']"
    using write_json_completes(2-4)[OF assms(3,4)] by simp_all
qed

lemma save_all_store:
  assumes "disk w = Some (Doc (JObj kvs))" and "map_of kvs ''messages'' = Some (JArr ms)"
    and "\<not> read_only w"
    and "\<forall>n<length rs.
           dump_error en (JObj (AList.update ''messages'' (JArr (ms @ take (Suc n) rs)) kvs)) = None"
  shows "disk (foldl (\<lambda>w m. save_message_to_json en l m w) w rs) =
           Some (Doc (JObj (AList.update ''messages'' (JArr (ms @ rs)) kvs)))"
  using assms
proof (induction rs arbitrary: w kvs ms)
  case Nil
  then show ?case by (simp add: update_triv)
next
  case (Cons r rs)
  let ?kvs = "AList.update ''messages'' (JArr (ms @ [r])) kvs"
  let ?w = "save_message_to_json en l r w"
  have first: "dump_error en (JObj ?kvs) = None"
    using Cons.prems(4) by auto
  have d: "disk ?w = Some (Doc (JObj ?kvs))" and ro: "\<not> read_only ?w"
    using save_message_store(1,2)[OF Cons.prems(1-3) first] Cons.prems(3) by simp_all
  have m: "map_of ?kvs ''messages'' = Some (JArr (ms @ [r]))"
    by (simp add: update_conv')
  have rest: "\<forall>n<length rs.
      dump_error en (JObj (AList.update ''messages'' (JArr ((ms @ [r]) @ take (Suc n) rs)) ?kvs))
        = None"
  proof (intro allI impI)
    fix n assume "n < length rs"
    then have "Suc n < length (r # rs)" by simp
    with Cons.prems(4) have "dump_error en
        (JObj (AList.update ''messages'' (JArr (ms @ take (Suc (Suc n)) (r # rs))) kvs)) = None"
      by blast
    then show "dump_error en
        (JObj (AList.update ''messages'' (JArr ((ms @ [r]) @ take (Suc n) rs)) ?kvs)) = None"
      by simp
  qed
  from Cons.IH[OF d m ro rest] show ?case by simp
qed

text \<open>
  C5, as the specification states it, fails: the rewrite can fail after the file has
  been truncated. On a store holding one message, appending a record whose text holds
  a lone surrogate makes the dump stop with \<open>UnicodeEncodeError\<close>, and so does the dump
  of the fresh store in the handler; the file is left with part of the text, it does
  not parse any more, and the earlier message is lost.
\<close>

theorem unencodable_record_loses_store:
  "parses_as_store (Doc (JObj one_record_store))
   \<and> \<not> read_only (file_world (Doc (JObj one_record_store)))
   \<and> disk (save_message_to_json example_env example_listener surrogate_record
             (file_world (Doc (JObj one_record_store)))) =
       Some (Partial (JObj [(''channel_name'', JStr ''general''), (''channel_id'', JStr ''C1''),
                            (''messages'', JArr [surrogate_record])]))
   \<and> json_load (disk (save_message_to_json example_env example_listener surrogate_record
                        (file_world (Doc (JObj one_record_store))))) = Inl JSONDecodeError"
  by code_simp

text \<open>
  C5, amended. On an existing file that parses as a store, appending the records
  \<open>rs\<close> one after the other, when every rewrite succeeds (the file can be written and
  each dump ends), leaves a store with the same keys in the same order, the same
  \<open>channel_name\<close> and \<open>channel_id\<close>, and the messages \<open>ms @ rs\<close>: every earlier message
  is kept in place and each new record goes last. With \<open>rs = [r]\<close> this is one append;
  with three records stamped \<open>T1\<close>, \<open>T2\<close>, \<open>T3\<close> the messages end in that order.
\<close>

theorem append_preserves_order:
  assumes "disk w = Some (Doc (JObj kvs))" and "map_of kvs ''messages'' = Some (JArr ms)"
    and "\<not> read_only w"
    and "\<forall>n<length rs.
           dump_error en (JObj (AList.update ''messages'' (JArr (ms @ take (Suc n) rs)) kvs)) = None"
  shows "\<exists>kvs'. disk (foldl (\<lambda>w m. save_message_to_json en l m w) w rs) =
                  Some (Doc (JObj kvs'))
           \<and> map_of kvs' ''messages'' = Some (JArr (ms @ rs))
           \<and> map_of kvs' ''channel_name'' = map_of kvs ''channel_name''
           \<and> map_of kvs' ''channel_id'' = map_of kvs ''channel_id''
           \<and> map fst kvs' = map fst kvs"
proof -
  let ?kvs = "AList.update ''messages'' (JArr (ms @ rs)) kvs"
  have "''messages'' \<in> set (map fst kvs)"
    using assms(2) by (metis map_of_eq_None_iff option.distinct(1) set_map)
  then have "map fst ?kvs = map fst kvs" by (simp add: update_keys)
  moreover have "map_of ?kvs ''messages'' = Some (JArr (ms @ rs))"
    and "map_of ?kvs ''channel_name'' = map_of kvs ''channel_name''"
    and "map_of ?kvs ''channel_id'' = map_of kvs ''channel_id''"
    by (simp_all add: update_conv')
  ultimately show ?thesis using save_all_store[OF assms, of l] by blast
qed

theorem append_preserves_order_witness:
  "disk (file_world (Doc (JObj empty_store))) = Some (Doc (JObj empty_store))
   \<and> map_of empty_store ''messages'' = Some (JArr [])
   \<and> \<not> read_only (file_world (Doc (JObj empty_store)))
   \<and> dump_error example_env (new_store example_listener [record_at ''1.1'']) = None
   \<and> dump_error example_env
         (new_store example_listener [record_at ''1.1'', record_at ''2.2'']) = None
   \<and> dump_error example_env
         (new_store example_listener [record_at ''1.1'', record_at ''2.2'', record_at ''3.3''])
       = None
   \<and> (\<exists>kvs'. disk (foldl (\<lambda>w m. save_message_to_json example_env example_listener m w)
                     (file_world (Doc (JObj empty_store)))
                     [record_at ''1.1'', record_at ''2.2'', record_at ''3.3'']) =
                Some (Doc (JObj kvs'))
          \<and> map_of kvs' ''messages'' =
              Some (JArr [record_at ''1.1'', record_at ''2.2'', record_at ''3.3''])
          \<and> map_of kvs' ''channel_name'' = Some (JStr ''general'')
          \<and> map_of kvs' ''channel_id'' = Some (JStr ''C1'')
          \<and> map fst kvs' = [''channel_name'', ''channel_id'', ''messages''])"
proof -
  have 1: "dump_error example_env (new_store example_listener [record_at ''1.1'']) = None"
    and 2: "dump_error example_env
         (new_store example_listener [record_at ''1.1'', record_at ''2.2'']) = None"
    and 3: "dump_error example_env
         (new_store example_listener [record_at ''1.1'', record_at ''2.2'', record_at ''3.3''])
       = None"
    by code_simp+
  have u: "JObj (AList.update ''messages'' (JArr ms) empty_store) = new_store example_listener ms"
    for ms
    by (simp add: empty_store_def new_store_def example_listener_def)
  have ok: "\<forall>n<length [record_at ''1.1'', record_at ''2.2'', record_at ''3.3''].
         dump_error example_env
           (JObj (AList.update ''messages''
              (JArr ([] @ take (Suc n) [record_at ''1.1'', record_at ''2.2'', record_at ''3.3'']))
              empty_store)) = None"
  proof (intro allI impI)
    fix n assume "n < length [record_at ''1.1'', record_at ''2.2'', record_at ''3.3'']"
    then have "n = 0 \<or> n = 1 \<or> n = 2" by auto
    with 1 2 3 show "dump_error example_env
           (JObj (AList.update ''messages''
              (JArr ([] @ take (Suc n) [record_at ''1.1'', record_at ''2.2'', record_at ''3.3'']))
              empty_store)) = None"
      by (auto simp add: u simp del: AList.update.simps)
  qed
  from append_preserves_order
          [where w = "file_world (Doc (JObj empty_store))" and kvs = empty_store and ms = "[]"
             and l = example_listener and en = example_env
             and rs = "[record_at ''1.1'', record_at ''2.2'', record_at ''3.3'']", OF _ _ _ ok]
  have "\<exists>kvs'. disk (foldl (\<lambda>w m. save_message_to_json example_env example_listener m w)
                     (file_world (Doc (JObj empty_store)))
                     [record_at ''1.1'', record_at ''2.2'', record_at ''3.3'']) =
                Some (Doc (JObj kvs'))
          \<and> map_of kvs' ''messages'' =
              Some (JArr [record_at ''1.1'', record_at ''2.2'', record_at ''3.3''])
          \<and> map_of kvs' ''channel_name'' = Some (JStr ''general'')
          \<and> map_of kvs' ''channel_id'' = Some (JStr ''C1'')
          \<and> map fst kvs' = [''channel_name'', ''channel_id'', ''messages'']"
    by (simp add: file_world_def empty_store_def)
  with 1 2 3 show ?thesis by (simp add: file_world_def empty_store_def)
qed






lemma append_message_Inr:
  assumes "append_message d m = Inr data"
  shows "\<exists>kvs ms. data = JObj kvs \<and> map_of kvs ''messages'' = Some (JArr (ms @ [m]))"
proof -
  from assms obtain msgs msgs' where g: "py_getitem d ''messages'' = Inr msgs"
    and a: "py_append msgs m = Inr msgs'" and s: "data = set_item d ''messages'' msgs'"
    by (auto simp: append_message_def and_then_Inr_iff)
  from g obtain kvs where d: "d = JObj kvs" by (cases d) simp_all
  from a obtain ms where "msgs = JArr ms" and "msgs' = JArr (ms @ [m])"
    by (cases msgs) auto
  with s d show ?thesis by (simp add: update_conv')
qed

lemma list_all_partial [simp]:
  "list_all (\<lambda>d. \<not> complete_file d) (replicate n (Some (Partial j)))"
  by (induction n) simp_all

lemma save_fallback_trace:
  assumes "\<not> read_only w"
  shows "\<exists>xs mid. log (save_fallback en l m w) = log w @ xs
           \<and> disk_states xs = Some (Text []) # mid @ [disk (save_fallback en l m w)]
           \<and> list_all (\<lambda>d. \<not> complete_file d) mid"
proof (cases "dump_error en (new_store l [m])")
  case None
  let ?mid = "replicate (dump_flushes en (new_store l [m])) (Some (Partial (new_store l [m])))"
  from save_fallback_completes[OF assms None]
  have "log (save_fallback en l m w) =
          log w @ (Print ''Error saving message to JSON'' # Disk (Some (Text []))
             # replicate (dump_flushes en (new_store l [m])) (Disk (Some (Partial (new_store l [m]))))
             @ [Disk (Some (Doc (new_store l [m]))), Print ''Created fresh file with message''])"
    and "disk (save_fallback en l m w) = Some (Doc (new_store l [m]))"
    by simp_all
  moreover have "disk_states (Print ''Error saving message to JSON'' # Disk (Some (Text []))
             # replicate (dump_flushes en (new_store l [m])) (Disk (Some (Partial (new_store l [m]))))
             @ [Disk (Some (Doc (new_store l [m]))), Print ''Created fresh file with message''])
           = Some (Text []) # ?mid @ [Some (Doc (new_store l [m]))]"
    by simp
  ultimately show ?thesis using list_all_partial by metis
next
  case (Some e)
  let ?mid = "replicate (dump_flushes en (new_store l [m])) (Some (Partial (new_store l [m])))"
  from save_fallback_stops[OF assms Some]
  have "log (save_fallback en l m w) =
          log w @ (Print ''Error saving message to JSON'' # Disk (Some (Text []))
             # replicate (dump_flushes en (new_store l [m])) (Disk (Some (Partial (new_store l [m]))))
             @ [Disk (Some (Partial (new_store l [m]))),
                Print ''Critical error: Could not save message at all''])"
    and "disk (save_fallback en l m w) = Some (Partial (new_store l [m]))"
    by simp_all
  moreover have "disk_states (Print ''Error saving message to JSON'' # Disk (Some (Text []))
             # replicate (dump_flushes en (new_store l [m])) (Disk (Some (Partial (new_store l [m]))))
             @ [Disk (Some (Partial (new_store l [m]))),
                Print ''Critical error: Could not save message at all''])
           = Some (Text []) # ?mid @ [Some (Partial (new_store l [m]))]"
    by simp
  ultimately show ?thesis using list_all_partial by metis
qed

lemma save_message_trace:
  assumes "\<not> read_only w"
  shows "\<exists>xs mid. log (save_message_to_json en l m w) = log w @ xs
           \<and> disk_states xs = Some (Text []) # mid @ [disk (save_message_to_json en l m w)]
           \<and> list_all (\<lambda>d. \<not> complete_file d) mid"
proof (cases "load_and_append l m w")
  case (Inl e)
  then have "save_message_to_json en l m w = save_fallback en l m w"
    by (simp add: save_message_eq)
  with save_fallback_trace[OF assms] show ?thesis by simp
next
  case (Inr data)
  let ?w1 = "snd (write_json en data w)"
  let ?parts = "replicate (dump_flushes en data) (Some (Partial data))"
  show ?thesis
  proof (cases "dump_error en data")
    case None
    have s: "save_message_to_json en l m w = print ''Message saved'' ?w1"
      using Inr write_json_completes(1)[OF assms None] by (simp add: save_message_eq)
    have "log (save_message_to_json en l m w) =
            log w @ (Disk (Some (Text [])) # replicate (dump_flushes en data) (Disk (Some (Partial data)))
                     @ [Disk (Some (Doc data)), Print ''Message saved''])"
      and "disk (save_message_to_json en l m w) = Some (Doc data)"
      using write_json_completes(2,4)[OF assms None] by (simp_all add: s)
    moreover have "disk_states (Disk (Some (Text []))
                     # replicate (dump_flushes en data) (Disk (Some (Partial data)))
                     @ [Disk (Some (Doc data)), Print ''Message saved''])
                   = Some (Text []) # ?parts @ [Some (Doc data)]"
      by simp
    ultimately show ?thesis using list_all_partial by metis
  next
    case (Some e)
    have s: "save_message_to_json en l m w = save_fallback en l m ?w1"
      using Inr write_json_stops(1)[OF assms Some] by (simp add: save_message_eq)
    have ro: "\<not> read_only ?w1"
      using write_json_stops(3)[OF assms Some] assms by simp
    from save_fallback_trace[OF ro] obtain ys mid
      where ys: "log (save_fallback en l m ?w1) = log ?w1 @ ys"
        and st: "disk_states ys = Some (Text []) # mid @ [disk (save_fallback en l m ?w1)]"
        and inc: "list_all (\<lambda>d. \<not> complete_file d) mid"
      by blast
    let ?xs = "Disk (Some (Text [])) # replicate (dump_flushes en data) (Disk (Some (Partial data)))
                 @ [Disk (Some (Partial data))] @ ys"
    let ?mid = "?parts @ [Some (Partial data), Some (Text [])] @ mid"
    have "log (save_message_to_json en l m w) = log w @ ?xs"
      using ys write_json_stops(4)[OF assms Some] by (simp add: s)
    moreover have "disk_states ?xs = Some (Text []) # ?mid @ [disk (save_message_to_json en l m w)]"
      using st by (simp add: s)
    moreover have "list_all (\<lambda>d. \<not> complete_file d) ?mid"
      using inc by simp
    ultimately show ?thesis by blast
  qed
qed

lemma save_message_last:
  assumes "\<not> read_only w" and "dump_error en (new_store l [m]) = None"
  shows "\<exists>kvs ms. disk (save_message_to_json en l m w) = Some (Doc (JObj kvs))
           \<and> map_of kvs ''messages'' = Some (JArr (ms @ [m]))"
proof -
  have fb: "\<exists>kvs ms. disk (save_fallback en l m w') = Some (Doc (JObj kvs))
           \<and> map_of kvs ''messages'' = Some (JArr (ms @ [m]))" if "\<not> read_only w'" for w'
    using save_fallback_completes(1)[OF that assms(2)] by (simp add: new_store_def)
  show ?thesis
  proof (cases "load_and_append l m w")
    case (Inl e)
    then show ?thesis using fb[OF assms(1)] by (simp add: save_message_eq)
  next
    case (Inr data)
    then have "\<exists>d. append_message d m = Inr data"
      by (auto simp: load_and_append_def and_then_Inr_iff)
    with append_message_Inr obtain kvs ms
      where data: "data = JObj kvs" "map_of kvs ''messages'' = Some (JArr (ms @ [m]))"
      by blast
    show ?thesis
    proof (cases "dump_error en data")
      case None
      with Inr data write_json_completes(1,2)[OF assms(1) None] show ?thesis
        by (simp add: save_message_eq)
    next
      case (Some e)
      have "\<not> read_only (snd (write_json en data w))"
        using write_json_stops(3)[OF assms(1) Some] assms(1) by simp
      from fb[OF this] Inr write_json_stops(1)[OF assms(1) Some] show ?thesis
        by (simp add: save_message_eq)
    qed
  qed
qed

text \<open>
  C3, as the specification states it, fails: \<open>save_message_to_json\<close> opens the backing
  file itself for writing, which truncates it, and only then writes the document. On
  an initialised store the file is seen empty in between, which is neither the old
  store nor the new one.
\<close>

theorem truncated_file_observable:
  "\<not> no_partial_file_observed example_env example_listener (record_at ''1'')
       (file_world (Doc (JObj empty_store)))"
  by code_simp

text \<open>
  C3, amended. Every append to a writable backing file rewrites the file in place,
  with no temporary file: the first state of the file is the empty file left by the
  truncation, and every state before the last is an empty or partly written file, so
  a reader can see those. When the dump of a fresh store with the new record can end
  (the record and the channel name and id can be written), the file holds on return a
  complete store whose last message is the new record.
\<close>

theorem rewrite_in_place:
  assumes "\<not> read_only w"
  shows "(\<exists>mid. disk_states (effects_since w (save_message_to_json en l m w)) =
                  Some (Text []) # mid @ [disk (save_message_to_json en l m w)]
               \<and> list_all (\<lambda>d. \<not> complete_file d) mid)
         \<and> (dump_error en (new_store l [m]) = None \<longrightarrow>
              (\<exists>kvs ms. disk (save_message_to_json en l m w) = Some (Doc (JObj kvs))
                 \<and> map_of kvs ''messages'' = Some (JArr (ms @ [m]))))"
proof -
  from save_message_trace[OF assms] obtain xs mid
    where "log (save_message_to_json en l m w) = log w @ xs"
      and "disk_states xs = Some (Text []) # mid @ [disk (save_message_to_json en l m w)]"
      and "list_all (\<lambda>d. \<not> complete_file d) mid"
    by blast
  then have "\<exists>mid. disk_states (effects_since w (save_message_to_json en l m w)) =
                  Some (Text []) # mid @ [disk (save_message_to_json en l m w)]
               \<and> list_all (\<lambda>d. \<not> complete_file d) mid"
    by (auto simp add: effects_since_def)
  with save_message_last[OF assms] show ?thesis by blast
qed

theorem rewrite_in_place_witness:
  "\<not> read_only (file_world (Doc (JObj empty_store)))
   \<and> dump_error buffered_env (new_store example_listener [record_at ''1'']) = None
   \<and> disk_states (effects_since (file_world (Doc (JObj empty_store)))
        (save_message_to_json buffered_env example_listener (record_at ''1'')
           (file_world (Doc (JObj empty_store))))) =
       [Some (Text []),
        Some (Partial (JObj [(''channel_name'', JStr ''general''), (''channel_id'', JStr ''C1''),
                             (''messages'', JArr [record_at ''1''])])),
        Some (Partial (JObj [(''channel_name'', JStr ''general''), (''channel_id'', JStr ''C1''),
                             (''messages'', JArr [record_at ''1''])])),
        Some (Partial (JObj [(''channel_name'', JStr ''general''), (''channel_id'', JStr ''C1''),
                             (''messages'', JArr [record_at ''1''])])),
        Some (Doc (JObj [(''channel_name'', JStr ''general''), (''channel_id'', JStr ''C1''),
                         (''messages'', JArr [record_at ''1''])]))]
   \<and> (\<exists>kvs ms. disk (save_message_to_json buffered_env example_listener (record_at ''1'')
                        (file_world (Doc (JObj empty_store)))) = Some (Doc (JObj kvs))
          \<and> map_of kvs ''messages'' = Some (JArr (ms @ [record_at ''1''])))"
proof -
  have 1: "\<not> read_only (file_world (Doc (JObj empty_store)))"
    by (simp add: file_world_def)
  have 2: "dump_error buffered_env (new_store example_listener [record_at ''1'']) = None"
    by code_simp
  have 3: "disk_states (effects_since (file_world (Doc (JObj empty_store)))
        (save_message_to_json buffered_env example_listener (record_at ''1'')
           (file_world (Doc (JObj empty_store))))) =
       [Some (Text []),
        Some (Partial (JObj [(''channel_name'', JStr ''general''), (''channel_id'', JStr ''C1''),
                             (''messages'', JArr [record_at ''1''])])),
        Some (Partial (JObj [(''channel_name'', JStr ''general''), (''channel_id'', JStr ''C1''),
                             (''messages'', JArr [record_at ''1''])])),
        Some (Partial (JObj [(''channel_name'', JStr ''general''), (''channel_id'', JStr ''C1''),
                             (''messages'', JArr [record_at ''1''])])),
        Some (Doc (JObj [(''channel_name'', JStr ''general''), (''channel_id'', JStr ''C1''),
                         (''messages'', JArr [record_at ''1''])]))]"
    by code_simp
  from rewrite_in_place[OF 1, where en = buffered_env and l = example_listener
                          and m = "record_at ''1''"] 1 2 3
  show ?thesis by blast
qed


text \<open>
  The same order through the whole pipeline: on a freshly initialised file, three
  accepted events handled one after the other leave their three records in the order
  of arrival.
\<close>

lemma three_events_in_order:
  "slack_timestamps (disk (foldl (\<lambda>w req. snd (handle_message_events example_env example_listener req w))
       (snd (initialize_messages_file example_env example_listener empty_world))
       [event_at ''1700000001.000000'', event_at ''1700000002.000000'',
        event_at ''1700000003.000000''])) =
     [JStr ''1700000001.000000'', JStr ''1700000002.000000'', JStr ''1700000003.000000'']"
  by code_simp

section \<open>The profile resolver: absorbed and propagated errors, missing fields\<close>

text \<open>
  C4, as the specification states it, fails: \<open>get_user_info\<close> handles \<open>SlackApiError\<close>
  only. When the lookup raises anything else, such as the \<open>URLError\<close> of a network
  failure, the exception reaches the caller.
\<close>

theorem network_error_propagates:
  "fst (get_user_info offline_env (JStr ''U1'') empty_world) = Inl (OSError ''URLError'')"
  by code_simp

text \<open>
  C4, amended. For every user id, when the lookup raises the platform's API error
  (\<open>SlackApiError\<close>: a permission problem, an unknown user), \<open>get_user_info\<close> does not
  raise: it returns the placeholder profile with the given id, the name \<open>"Unknown"\<close>
  and the empty string for \<open>real_name\<close>, \<open>display_name\<close> and \<open>email\<close>. When the
  lookup raises any other exception, \<open>get_user_info\<close> raises it to its caller.
\<close>

theorem api_error_absorbed:
  "(users_info en user_id = Inl (SlackApiError c) \<longrightarrow>
      get_user_info en user_id w =
        (Inr (JObj [(''id'', user_id), (''name'', JStr ''Unknown''), (''real_name'', JStr []),
                    (''display_name'', JStr []), (''email'', JStr [])]),
         emit (UsersInfo user_id) w))
   \<and> (users_info en user_id = Inl e \<and> (\<forall>c. e \<noteq> SlackApiError c) \<longrightarrow>
        fst (get_user_info en user_id w) = Inl e)"
proof (intro conjI impI)
  assume "users_info en user_id = Inl (SlackApiError c)"
  then show "get_user_info en user_id w =
        (Inr (JObj [(''id'', user_id), (''name'', JStr ''Unknown''), (''real_name'', JStr []),
                    (''display_name'', JStr []), (''email'', JStr [])]),
         emit (UsersInfo user_id) w)"
    by (simp add: get_user_info_def Let_def unknown_profile_def)
next
  assume "users_info en user_id = Inl e \<and> (\<forall>c. e \<noteq> SlackApiError c)"
  then show "fst (get_user_info en user_id w) = Inl e"
    by (cases e) (simp_all add: get_user_info_def Let_def)
qed

theorem api_error_absorbed_witness:
  "users_info refusing_env (JStr ''U1'') = Inl (SlackApiError ''user_not_found'')
   \<and> fst (get_user_info refusing_env (JStr ''U1'') empty_world) =
       Inr (JObj [(''id'', JStr ''U1''), (''name'', JStr ''Unknown''), (''real_name'', JStr []),
                  (''display_name'', JStr []), (''email'', JStr [])])
   \<and> users_info offline_env (JStr ''U1'') = Inl (OSError ''URLError'')
   \<and> fst (get_user_info offline_env (JStr ''U1'') empty_world) = Inl (OSError ''URLError'')"
  using api_error_absorbed
          [of refusing_env "JStr ''U1''" "''user_not_found''" empty_world "OSError ''URLError''"]
        api_error_absorbed
          [of offline_env "JStr ''U1''" "''user_not_found''" empty_world "OSError ''URLError''"]
  by (simp add: refusing_env_def offline_env_def example_env_def)

lemma profile_of_user:
  assumes "map_of user ''id'' = Some i" and "map_of user ''name'' = Some n"
    and "map_of user ''profile'' = None \<or> (\<exists>p. map_of user ''profile'' = Some (JObj p))"
  shows "profile_of (JObj user) =
     Inr (JObj [(''id'', i), (''name'', n),
                (''real_name'', case map_of user ''real_name'' of None \<Rightarrow> JStr [] | Some v \<Rightarrow> v),
                (''display_name'',
                   case profile_field user ''display_name'' of None \<Rightarrow> JStr [] | Some v \<Rightarrow> v),
                (''email'',
                   case profile_field user ''email'' of None \<Rightarrow> JStr [] | Some v \<Rightarrow> v)])"
  using assms by (auto simp add: profile_of_def profile_field_def)

text \<open>
  C7. For every lookup response whose \<open>user\<close> is a dict with \<open>id\<close> and \<open>name\<close>, and
  whose \<open>profile\<close> is missing or a dict, \<open>get_user_info\<close> returns a profile with all
  five fields; \<open>real_name\<close> is the empty string when the response has none, and so are
  \<open>display_name\<close> and \<open>email\<close> when the response's profile has none.
\<close>

theorem missing_fields_default:
  assumes "users_info en user_id = Inr (JObj response)"
    and "map_of response ''user'' = Some (JObj user)"
    and "map_of user ''id'' = Some i" and "map_of user ''name'' = Some n"
    and "map_of user ''profile'' = None \<or> (\<exists>p. map_of user ''profile'' = Some (JObj p))"
  shows "\<exists>real_name display_name email.
           fst (get_user_info en user_id w) =
             Inr (JObj [(''id'', i), (''name'', n), (''real_name'', real_name),
                        (''display_name'', display_name), (''email'', email)])
           \<and> (map_of user ''real_name'' = None \<longrightarrow> real_name = JStr [])
           \<and> (profile_field user ''display_name'' = None \<longrightarrow> display_name = JStr [])
           \<and> (profile_field user ''email'' = None \<longrightarrow> email = JStr [])"
  using assms(1,2) profile_of_user[OF assms(3-5)]
  by (simp add: get_user_info_def Let_def response_getitem_def)

theorem missing_fields_default_witness:
  "users_info sparse_env (JStr ''U1'') =
     Inr (JObj [(''ok'', JBool True),
                (''user'', JObj [(''id'', JStr ''U1''), (''name'', JStr ''bob'')])])
   \<and> fst (get_user_info sparse_env (JStr ''U1'') empty_world) =
       Inr (JObj [(''id'', JStr ''U1''), (''name'', JStr ''bob''), (''real_name'', JStr []),
                  (''display_name'', JStr []), (''email'', JStr [])])"
  using missing_fields_default
          [of sparse_env "JStr ''U1''"
              "[(''ok'', JBool True),
                (''user'', JObj [(''id'', JStr ''U1''), (''name'', JStr ''bob'')])]"
              "[(''id'', JStr ''U1''), (''name'', JStr ''bob'')]"
              "JStr ''U1''" "JStr ''bob''" empty_world]
  by (auto simp add: sparse_env_def example_env_def profile_field_def)

section \<open>The event filter and the pipeline\<close>

lemma event_filter_JObj:
  "event_filter l (JObj kvs) = Inr True \<longleftrightarrow>
     map_of kvs ''type'' = Some (JStr ''message'')
     \<and> map_of kvs ''channel'' = Some (JStr (channel_id l))
     \<and> map_of kvs ''user'' \<noteq> None
     \<and> (map_of kvs ''subtype'' = None \<or> map_of kvs ''subtype'' = Some JNull)"
  by (auto simp: event_filter_def split: option.splits)

lemma event_filter_iff:
  "event_filter l ev = Inr True \<longleftrightarrow>
     field ev ''type'' = Some (JStr ''message'')
     \<and> field ev ''channel'' = Some (JStr (channel_id l))
     \<and> field ev ''user'' \<noteq> None
     \<and> (field ev ''subtype'' = None \<or> field ev ''subtype'' = Some JNull)"
proof (cases ev)
  case (JObj kvs)
  then show ?thesis by (simp add: event_filter_JObj)
qed (simp_all add: event_filter_def)

lemma log_write_json: "\<exists>xs. log (snd (write_json en j w)) = log w @ xs"
proof (cases "read_only w")
  case True
  then show ?thesis by (simp add: write_json_read_only)
next
  case False
  then show ?thesis
    by (cases "dump_error en j") (simp_all add: write_json_completes write_json_stops)
qed

lemma log_save_fallback: "\<exists>xs. log (save_fallback en l m w) = log w @ xs"
  using log_write_json[of en "new_store l [m]" "print ''Error saving message to JSON'' w"]
  by (auto simp add: save_fallback_eq Let_def)

lemma log_save: "\<exists>xs. log (save_message_to_json en l m w) = log w @ xs"
proof (cases "load_and_append l m w")
  case (Inl e)
  then show ?thesis using log_save_fallback[of en l m w] by (simp add: save_message_eq)
next
  case (Inr data)
  obtain xs where xs: "log (snd (write_json en data w)) = log w @ xs"
    using log_write_json by blast
  obtain ys where "log (save_fallback en l m (snd (write_json en data w))) =
      log (snd (write_json en data w)) @ ys"
    using log_save_fallback by blast
  with xs Inr show ?thesis by (simp add: save_message_eq)
qed

lemma get_user_info_world: "snd (get_user_info en u w) = emit (UsersInfo u) w"
  by (simp add: get_user_info_def Let_def split: sum.splits exn.splits)

lemma log_print_banner: "\<exists>xs. log (print_banner w) = log w @ xs"
  by (simp add: print_banner_def)

lemma disk_print_banner [simp]: "disk (print_banner w) = disk w"
  by (simp add: print_banner_def)

lemma log_print_message: "\<exists>xs. log (snd (print_message en l ev w)) = log w @ xs"
proof (cases "py_getitem ev ''user''")
  case (Inl e)
  then show ?thesis by (simp add: print_message_def)
next
  case (Inr u)
  obtain r where g: "get_user_info en u w = (r, emit (UsersInfo u) w)"
    using get_user_info_world[of en u w] by (cases "get_user_info en u w") simp
  show ?thesis
  proof (cases r)
    case (Inl e)
    with Inr g show ?thesis by (simp add: print_message_def)
  next
    case ui: (Inr user_info)
    show ?thesis
    proof (cases "message_data_of en l ev user_info")
      case (Inl e)
      with Inr g ui show ?thesis by (simp add: print_message_def)
    next
      case md: (Inr m)
      obtain xs where "log (print_banner (emit (UsersInfo u) w)) = log (emit (UsersInfo u) w) @ xs"
        using log_print_banner by blast
      moreover obtain ys where "log (save_message_to_json en l m (print_banner (emit (UsersInfo u) w)))
          = log (print_banner (emit (UsersInfo u) w)) @ ys"
        using log_save by blast
      ultimately show ?thesis using Inr g ui md by (simp add: print_message_def)
    qed
  qed
qed

lemma log_accepted:
  "\<exists>xs. log (snd (if accepted then print_message en l ev (print s w)
                   else (Inr (), print s' w))) = log w @ xs"
  using log_print_message[of en l ev "print s w"] by auto

lemma log_after_filter:
  "\<exists>xs. log (snd (case event_filter l ev of
                    Inl e \<Rightarrow> (Inl e, w)
                  | Inr accepted \<Rightarrow>
                      if accepted then print_message en l ev (print s w)
                      else (Inr (), print s' w))) = log w @ xs"
  using log_accepted[of _ en l ev s w s'] by (cases "event_filter l ev") simp_all

lemma log_handle:
  "\<exists>xs. log (snd (handle_message_events en l req w)) = log w @ SendAck (envelope_id req) # xs"
proof (cases "send_socket_mode_response en (envelope_id req)")
  case (Some e)
  then show ?thesis by (simp add: handle_message_events_def Let_def)
next
  case None
  let ?w2 = "print ''Received event type'' (emit (SendAck (envelope_id req)) w)"
  let ?w3 = "print ''Event details'' ?w2"
  show ?thesis
  proof (cases "req_type req = ''events_api''")
    case False
    with None show ?thesis by (simp add: handle_message_events_def Let_def)
  next
    case True
    show ?thesis
    proof (cases "py_getitem (payload req) ''event''")
      case (Inl e)
      with None True show ?thesis by (simp add: handle_message_events_def Let_def)
    next
      case (Inr ev)
      show ?thesis
      proof (cases "and_then (py_get ev ''type'' (JStr ''unknown''))
                      (\<lambda>t. py_get ev ''channel'' (JStr ''unknown''))")
        case (Inl e)
        with None True Inr show ?thesis by (simp add: handle_message_events_def Let_def)
      next
        case c: (Inr c)
        obtain xs where "log (snd (case event_filter l ev of
                    Inl e \<Rightarrow> (Inl e, ?w3)
                  | Inr accepted \<Rightarrow>
                      if accepted then print_message en l ev
                         (print ''Processing message from user'' ?w3)
                      else (Inr (), print ''Skipping event'' ?w3))) = log ?w3 @ xs"
          using log_after_filter by blast
        with None True Inr c show ?thesis
          by (simp add: handle_message_events_def Let_def)
      qed
    qed
  qed
qed

text \<open>
  C8. Whatever the envelope, the first thing \<open>handle_message_events\<close> does to the
  outside is to send the acknowledgment for the envelope's id: every line printed,
  the lookup and every write to the backing file come after it, whether the event is
  then accepted, dropped or makes the handler raise.
\<close>

theorem ack_first:
  "\<exists>rest. effects_since w (snd (handle_message_events en l req w)) =
            SendAck (envelope_id req) # rest"
  using log_handle[of en l req w] by (auto simp: effects_since_def)

lemma handle_quiet_cases:
  assumes "\<not> (req_type req = ''events_api'' \<and>
              (\<exists>ev. py_getitem (payload req) ''event'' = Inr ev \<and> event_filter l ev = Inr True))"
  shows "disk_states (effects_since w (snd (handle_message_events en l req w))) = []"
proof (cases "send_socket_mode_response en (envelope_id req)")
  case (Some e)
  then show ?thesis by (simp add: handle_message_events_def Let_def effects_since_def)
next
  case None
  show ?thesis
  proof (cases "req_type req = ''events_api''")
    case False
    with None show ?thesis by (simp add: handle_message_events_def Let_def effects_since_def)
  next
    case True
    show ?thesis
    proof (cases "py_getitem (payload req) ''event''")
      case (Inl e)
      with None True show ?thesis
        by (simp add: handle_message_events_def Let_def effects_since_def)
    next
      case (Inr ev)
      with assms True have nf: "event_filter l ev \<noteq> Inr True" by simp
      show ?thesis
      proof (cases "and_then (py_get ev ''type'' (JStr ''unknown''))
                      (\<lambda>t. py_get ev ''channel'' (JStr ''unknown''))")
        case (Inl e)
        with None True Inr show ?thesis
          by (simp add: handle_message_events_def Let_def effects_since_def)
      next
        case c: (Inr c)
        show ?thesis
        proof (cases "event_filter l ev")
          case (Inl e)
          with None True Inr c show ?thesis
            by (simp add: handle_message_events_def Let_def effects_since_def)
        next
          case a: (Inr accepted)
          with nf have "\<not> accepted" by simp
          with None True Inr c a show ?thesis
            by (simp add: handle_message_events_def Let_def effects_since_def)
        qed
      qed
    qed
  qed
qed

text \<open>
  C2, as the specification states it, fails: an event that carries \<open>subtype\<close> with the
  value null is accepted and recorded, although its \<open>subtype\<close> is not absent.
\<close>

theorem null_subtype_accepted:
  "event_filter example_listener (JObj null_subtype_event) = Inr True
   \<and> \<not> spec_accept example_listener (JObj null_subtype_event)
   \<and> disk_states (effects_since empty_world
         (snd (handle_message_events example_env example_listener
                 (events_api (JObj null_subtype_event)) empty_world))) \<noteq> []"
  by code_simp

text \<open>
  C2, amended. For every event and tracked channel id, the filter accepts the event
  if and only if its type is \<open>"message"\<close>, its channel is the tracked id, it has a
  \<open>user\<close> field, and its \<open>subtype\<close> is absent or null. The pipeline writes to the
  backing file only for an \<open>events_api\<close> envelope whose event the filter accepts: no
  envelope of another type and no other event is ever recorded.
\<close>

theorem filter_accepts_plain_user_messages:
  "(event_filter l ev = Inr True \<longleftrightarrow>
      field ev ''type'' = Some (JStr ''message'')
      \<and> field ev ''channel'' = Some (JStr (channel_id l))
      \<and> field ev ''user'' \<noteq> None
      \<and> (field ev ''subtype'' = None \<or> field ev ''subtype'' = Some JNull))
   \<and> (disk_states (effects_since w (snd (handle_message_events en l req w))) \<noteq> [] \<longrightarrow>
        req_type req = ''events_api'' \<and>
        (\<exists>ev'. py_getitem (payload req) ''event'' = Inr ev' \<and> event_filter l ev' = Inr True))"
  using event_filter_iff[of l ev] handle_quiet_cases[of req l w en] by blast

theorem filter_accepts_plain_user_messages_witness:
  "event_filter example_listener (JObj example_event) = Inr True
   \<and> field (JObj example_event) ''type'' = Some (JStr ''message'')
   \<and> field (JObj example_event) ''channel'' = Some (JStr (channel_id example_listener))
   \<and> field (JObj example_event) ''user'' \<noteq> None
   \<and> field (JObj example_event) ''subtype'' = None
   \<and> disk_states (effects_since empty_world
         (snd (handle_message_events example_env example_listener
                 (events_api (JObj example_event)) empty_world))) \<noteq> []
   \<and> req_type (events_api (JObj example_event)) = ''events_api''
   \<and> (\<exists>ev'. py_getitem (payload (events_api (JObj example_event))) ''event'' = Inr ev'
             \<and> event_filter example_listener ev' = Inr True)"
proof -
  have "field (JObj example_event) ''type'' = Some (JStr ''message'')"
    and "field (JObj example_event) ''channel'' = Some (JStr (channel_id example_listener))"
    and "field (JObj example_event) ''user'' \<noteq> None"
    and "field (JObj example_event) ''subtype'' = None"
    by (simp_all add: example_event_def example_listener_def)
  moreover have "disk_states (effects_since empty_world
         (snd (handle_message_events example_env example_listener
                 (events_api (JObj example_event)) empty_world))) \<noteq> []"
    by code_simp
  ultimately show ?thesis
    using filter_accepts_plain_user_messages
            [of example_listener "JObj example_event" empty_world example_env
                "events_api (JObj example_event)"]
    by blast
qed








lemma message_data_needs:
  assumes "message_data_of en l ev ui = Inr md"
  shows "(\<exists>ts. py_getitem ev ''ts'' = Inr ts) \<and> (\<exists>t. py_getitem ev ''text'' = Inr t)"
  using assms by (auto simp: message_data_of_def and_then_Inr_iff)

lemma message_data_raises:
  assumes "map_of kvs ''ts'' = None \<or> map_of kvs ''text'' = None"
  shows "\<exists>e. message_data_of en l (JObj kvs) ui = Inl e"
proof (cases "message_data_of en l (JObj kvs) ui")
  case (Inr md)
  from message_data_needs[OF this] assms show ?thesis by auto
qed simp

lemma print_message_raises:
  assumes "map_of kvs ''ts'' = None \<or> map_of kvs ''text'' = None"
  shows "isl (fst (print_message en l (JObj kvs) w))
         \<and> disk (snd (print_message en l (JObj kvs) w)) = disk w
         \<and> (\<exists>xs. log (snd (print_message en l (JObj kvs) w)) = log w @ xs
                 \<and> disk_states xs = [])"
proof (cases "py_getitem (JObj kvs) ''user''")
  case (Inl e)
  then show ?thesis by (simp add: print_message_def)
next
  case (Inr u)
  obtain r where g: "get_user_info en u w = (r, emit (UsersInfo u) w)"
    using get_user_info_world[of en u w] by (cases "get_user_info en u w") simp
  show ?thesis
  proof (cases r)
    case (Inl e)
    with Inr g show ?thesis by (simp add: print_message_def)
  next
    case ui: (Inr user_info)
    from message_data_raises[OF assms] obtain e
      where "message_data_of en l (JObj kvs) user_info = Inl e" by blast
    with Inr g ui show ?thesis by (simp add: print_message_def)
  qed
qed

lemma event_filter_reads_four_fields:
  assumes "map_of kvs' ''type'' = map_of kvs ''type''"
    and "map_of kvs' ''channel'' = map_of kvs ''channel''"
    and "map_of kvs' ''user'' = map_of kvs ''user''"
    and "map_of kvs' ''subtype'' = map_of kvs ''subtype''"
  shows "event_filter l (JObj kvs') = event_filter l (JObj kvs)"
  using assms by (simp add: event_filter_def cong: if_cong)

text \<open>
  C10. The filter reads only \<open>type\<close>, \<open>channel\<close>, \<open>user\<close> and \<open>subtype\<close>: an accepted
  event stays accepted whatever its other fields are. The record is built from
  \<open>event["ts"]\<close> and \<open>event["text"]\<close>, which have no default. So for every accepted
  event without \<open>ts\<close> or without \<open>text\<close> the handler raises, and nothing is written to
  the backing file.
\<close>

theorem missing_ts_or_text_raises:
  assumes "req_type req = ''events_api''"
    and "py_getitem (payload req) ''event'' = Inr (JObj kvs)"
    and "event_filter l (JObj kvs) = Inr True"
    and "map_of kvs ''ts'' = None \<or> map_of kvs ''text'' = None"
  shows "(\<forall>kvs'. map_of kvs' ''type'' = map_of kvs ''type''
                \<and> map_of kvs' ''channel'' = map_of kvs ''channel''
                \<and> map_of kvs' ''user'' = map_of kvs ''user''
                \<and> map_of kvs' ''subtype'' = map_of kvs ''subtype''
            \<longrightarrow> event_filter l (JObj kvs') = Inr True)
         \<and> isl (fst (handle_message_events en l req w))
         \<and> disk (snd (handle_message_events en l req w)) = disk w
         \<and> disk_states (effects_since w (snd (handle_message_events en l req w))) = []"
proof (cases "send_socket_mode_response en (envelope_id req)")
  case (Some e)
  then show ?thesis using event_filter_reads_four_fields[of _ kvs l] assms(3)
    by (simp add: handle_message_events_def Let_def effects_since_def)
next
  case None
  let ?w4 = "print ''Processing message from user'' (print ''Event details''
               (print ''Received event type'' (emit (SendAck (envelope_id req)) w)))"
  have h: "handle_message_events en l req w = print_message en l (JObj kvs) ?w4"
    using None assms(1-3) by (simp add: handle_message_events_def Let_def)
  from print_message_raises[OF assms(4), of en l ?w4] obtain xs
    where "isl (fst (print_message en l (JObj kvs) ?w4))"
      and "disk (snd (print_message en l (JObj kvs) ?w4)) = disk ?w4"
      and "log (snd (print_message en l (JObj kvs) ?w4)) = log ?w4 @ xs"
      and "disk_states xs = []"
    by blast
  with h show ?thesis using event_filter_reads_four_fields[of _ kvs l] assms(3)
    by (simp add: effects_since_def)
qed

theorem missing_ts_or_text_raises_witness:
  "req_type (events_api (JObj no_ts_event)) = ''events_api''
   \<and> py_getitem (payload (events_api (JObj no_ts_event))) ''event'' = Inr (JObj no_ts_event)
   \<and> event_filter example_listener (JObj no_ts_event) = Inr True
   \<and> map_of no_ts_event ''ts'' = None
   \<and> fst (handle_message_events example_env example_listener
             (events_api (JObj no_ts_event)) empty_world) = Inl (KeyError ''ts'')
   \<and> isl (fst (handle_message_events example_env example_listener
                  (events_api (JObj no_ts_event)) empty_world))
   \<and> disk (snd (handle_message_events example_env example_listener
                   (events_api (JObj no_ts_event)) empty_world)) = disk empty_world"
proof -
  have 1: "req_type (events_api (JObj no_ts_event)) = ''events_api''"
    and 2: "py_getitem (payload (events_api (JObj no_ts_event))) ''event'' =
              Inr (JObj no_ts_event)"
    by (simp_all add: events_api_def)
  have 3: "event_filter example_listener (JObj no_ts_event) = Inr True"
    by code_simp
  have 4: "map_of no_ts_event ''ts'' = None"
    by (simp add: no_ts_event_def)
  have 5: "fst (handle_message_events example_env example_listener
             (events_api (JObj no_ts_event)) empty_world) = Inl (KeyError ''ts'')"
    by code_simp
  from 4 have "map_of no_ts_event ''ts'' = None \<or> map_of no_ts_event ''text'' = None" ..
  from missing_ts_or_text_raises[OF 1 2 3 this, of example_env empty_world] 1 2 3 4 5
  show ?thesis by blast
qed

end
